theory Spec2Isabelle
  imports Main "HOL-Library.Word"
begin

unbundle bit_operations_syntax

section \<open>JavaScript strings and values\<close>

text \<open>
  A JavaScript string is a sequence of UTF-16 code units; \<open>length\<close>, \<open>indexOf\<close>,
  \<open>substring\<close> and \<open>slice\<close> all count code units. \<open>ustr\<close> lifts an ASCII literal.
\<close>

type_synonym jschar = "16 word"
type_synonym jsstring = "jschar list"

definition ustr :: "string \<Rightarrow> jsstring" where
  "ustr s = map of_char s"

abbreviation LBRACE :: jschar where "LBRACE \<equiv> 0x7B"
abbreviation RBRACE :: jschar where "RBRACE \<equiv> 0x7D"

text \<open>
  \<open>indexOf\<close> and \<open>lastIndexOf\<close> with a search item of one element: the first (last)
  position holding it, or \<open>-1\<close>. The same functions serve \<open>String.prototype\<close> (elements
  are code units) and \<open>Array.prototype\<close> (elements are values compared with \<open>===\<close>).
\<close>

primrec indexOf :: "'a list \<Rightarrow> 'a \<Rightarrow> int" where
  "indexOf [] c = -1"
| "indexOf (x # xs) c =
     (if x = c then 0 else (let r = indexOf xs c in if r = -1 then -1 else r + 1))"

primrec lastIndexOf :: "'a list \<Rightarrow> 'a \<Rightarrow> int" where
  "lastIndexOf [] c = -1"
| "lastIndexOf (x # xs) c =
     (let r = lastIndexOf xs c in
      if r = -1 then (if x = c then 0 else -1) else r + 1)"

definition substring :: "jsstring \<Rightarrow> int \<Rightarrow> int \<Rightarrow> jsstring" where
  \<comment> \<open>\<open>String.prototype.substring\<close>: both ends clamped to \<open>[0, length]\<close>, swapped if reversed.\<close>
  "substring s a b =
     (let n = int (length s);
          a' = min (max a 0) n;
          b' = min (max b 0) n;
          lo = min a' b';
          hi = max a' b'
      in take (nat (hi - lo)) (drop (nat lo) s))"

definition slice :: "'a list \<Rightarrow> int \<Rightarrow> int \<Rightarrow> 'a list" where
  \<comment> \<open>\<open>slice\<close> of strings and arrays: a negative end counts from the back, no swapping.\<close>
  "slice s a b =
     (let n = int (length s);
          from = (if a < 0 then max (n + a) 0 else min a n);
          to = (if b < 0 then max (n + b) 0 else min b n)
      in take (nat (to - from)) (drop (nat from) s))"

definition is_white_space :: "jschar \<Rightarrow> bool" where
  \<comment> \<open>ECMAScript WhiteSpace and LineTerminator, the code units \<open>trim\<close> removes.\<close>
  "is_white_space c \<longleftrightarrow>
     c \<in> {0x9, 0xA, 0xB, 0xC, 0xD, 0x20, 0xA0, 0x1680, 0x2028, 0x2029, 0x202F,
          0x205F, 0x3000, 0xFEFF}
     \<or> (0x2000 \<le> c \<and> c \<le> 0x200A)"

definition trim :: "jsstring \<Rightarrow> jsstring" where
  "trim s = rev (dropWhile is_white_space (rev (dropWhile is_white_space s)))"

text \<open>
  The values that reach the program come out of a JSON parser (the request body, the
  backend's reply, the model's output), plus \<open>undefined\<close> for an absent property.
  A number is its IEEE-754 double, kept as the 64-bit pattern; an object is its own
  properties in insertion order, each key once (in a list that repeats a key, the first
  entry is the property).
\<close>

datatype jsvalue =
    JUndefined
  | JNull
  | JBool bool
  | JNum "64 word"
  | JStr jsstring
  | JArr "jsvalue list"
  | JObj "(jsstring \<times> jsvalue) list"

definition zero_or_nan :: "64 word \<Rightarrow> bool" where
  \<comment> \<open>\<open>+0\<close>, \<open>-0\<close> (all bits but the sign clear) or NaN (exponent all ones, fraction not 0).\<close>
  "zero_or_nan d \<longleftrightarrow>
     (let m = d AND 0x7FFFFFFFFFFFFFFF in m = 0 \<or> 0x7FF0000000000000 < m)"

fun truthy :: "jsvalue \<Rightarrow> bool" where
  "truthy JUndefined = False"
| "truthy JNull = False"
| "truthy (JBool b) = b"
| "truthy (JNum d) = (\<not> zero_or_nan d)"
| "truthy (JStr s) = (s \<noteq> [])"
| "truthy (JArr xs) = True"
| "truthy (JObj kvs) = True"

fun nullish :: "jsvalue \<Rightarrow> bool" where
  "nullish JUndefined = True"
| "nullish JNull = True"
| "nullish v = False"

fun typeof_string :: "jsvalue \<Rightarrow> bool" where
  "typeof_string (JStr s) = True"
| "typeof_string v = False"

fun get :: "jsvalue \<Rightarrow> string \<Rightarrow> jsvalue" where
  \<comment> \<open>\<open>v.name\<close> for a value that is neither \<open>undefined\<close> nor \<open>null\<close>, and for the names
      this program reads (\<open>prompt\<close>, \<open>code\<close>, \<open>originalPrompt\<close>, \<open>badJson\<close>, \<open>response\<close>,
      \<open>html\<close>, \<open>css\<close>, \<open>js\<close>, \<open>error\<close>): none is an index, \<open>length\<close> or a member of a
      prototype, so only an object's own property can answer.\<close>
  "get (JObj kvs) name = (case map_of kvs (ustr name) of Some v \<Rightarrow> v | None \<Rightarrow> JUndefined)"
| "get v name = JUndefined"

datatype js_error =
    TypeError
  | SyntaxError jsstring
  | FetchError jsstring
  | Error jsstring

text \<open>
  The built-ins of the JavaScript runtime that the program calls on arbitrary values are
  parameters of the model: \<open>JSON.parse\<close> (\<open>Inl\<close> is the message of the SyntaxError it
  throws), \<open>JSON.stringify\<close> (which does not throw on these values, and returns a
  string for every one the program passes: an object literal or a truthy value), and the
  string conversion of a template literal for a value that is not a string (\<open>None\<close>: the
  conversion throws a TypeError, as for an object whose own \<open>toString\<close> property is not
  callable).
\<close>

record runtime =
  JSON_parse :: "jsstring \<Rightarrow> jsstring + jsvalue"
  JSON_stringify :: "jsvalue \<Rightarrow> jsstring"
  ToString :: "jsvalue \<Rightarrow> jsstring option"

fun template :: "runtime \<Rightarrow> jsvalue \<Rightarrow> js_error + jsstring" where
  \<comment> \<open>\<open>${v}\<close> inside a template literal.\<close>
  "template rt (JStr s) = Inr s"
| "template rt v = (case ToString rt v of Some s \<Rightarrow> Inr s | None \<Rightarrow> Inl TypeError)"

section \<open>The console\<close>

text \<open>One constructor for each \<open>console.log\<close> and \<open>console.error\<close> call of the program.\<close>

datatype console_line =
    ExtractAttempt                \<comment> \<open>Raw response received. Attempting to extract JSON...\<close>
  | NoJsonStructure               \<comment> \<open>ERROR: Could not find a JSON object structure in the response.\<close>
  | RawTextSnippet jsstring       \<comment> \<open>Raw Text (first 500 chars): ...\<close>
  | ParseSucceeded                \<comment> \<open>Successfully parsed extracted JSON.\<close>
  | ParseFailed jsstring          \<comment> \<open>ERROR: Failed to parse the extracted JSON string. (message)\<close>
  | ExtractedSnippet jsstring     \<comment> \<open>Extracted String (first 500 chars): ...\<close>
  | SendingRequest jsstring       \<comment> \<open>Sending request to Ollama with model: ...\<close>
  | ReceivedResponse              \<comment> \<open>Received response from Ollama.\<close>
  | ValidatedStructure            \<comment> \<open>Successfully validated response structure.\<close>
  | FatalError js_error           \<comment> \<open>FATAL ERROR in processGenerativeRequest: (the error caught)\<close>
  | ErrorIn jsstring js_error     \<comment> \<open>Error in (endpoint): (the error caught)\<close>

section \<open>JSON extraction\<close>

definition extractAndParseJson ::
  "runtime \<Rightarrow> jsvalue \<Rightarrow> console_line list \<times> (js_error + jsvalue)" where
  \<comment> \<open>The result \<open>Inr JNull\<close> is \<open>return null\<close>. Called on a value that is not a string,
      the function throws: only a string has both \<open>indexOf\<close> and \<open>substring\<close>.\<close>
  "extractAndParseJson rt text =
     (case text of
        JStr s \<Rightarrow>
          (let startIndex = indexOf s LBRACE;
               endIndex = lastIndexOf s RBRACE
           in if startIndex = -1 \<or> endIndex = -1 \<or> endIndex < startIndex
              then ([ExtractAttempt, NoJsonStructure, RawTextSnippet (substring s 0 500)],
                    Inr JNull)
              else (let jsonString = substring s startIndex (endIndex + 1)
                    in case JSON_parse rt jsonString of
                         Inr parsed \<Rightarrow> ([ExtractAttempt, ParseSucceeded], Inr parsed)
                       | Inl message \<Rightarrow>
                           ([ExtractAttempt, ParseFailed message,
                             ExtractedSnippet (substring jsonString 0 500)],
                            Inr JNull)))
      | JArr xs \<Rightarrow>
          (let startIndex = indexOf xs (JStr [LBRACE]);
               endIndex = lastIndexOf xs (JStr [RBRACE])
           in if startIndex = -1 \<or> endIndex = -1 \<or> endIndex < startIndex
              then ([ExtractAttempt, NoJsonStructure], Inl TypeError)
              else ([ExtractAttempt], Inl TypeError))
      | _ \<Rightarrow> ([ExtractAttempt], Inl TypeError))"

section \<open>HTTP\<close>

record 'b http_request =
  url :: jsstring
  http_method :: jsstring
  content_type :: jsstring
  body :: 'b

text \<open>
  What \<open>fetch\<close> resolves to: the status line and what reading the body gives, as text
  (\<open>text()\<close>) and as JSON (\<open>json()\<close>); either read can reject.
\<close>

record http_response =
  status :: nat
  statusText :: jsstring
  text_body :: "js_error + jsstring"
  json_body :: "js_error + jsvalue"

definition ok :: "http_response \<Rightarrow> bool" where
  "ok r \<longleftrightarrow> 200 \<le> status r \<and> status r < 300"

datatype fetch_result = Rejected js_error | Resolved http_response

section \<open>The relay service\<close>

abbreviation DQUOTE :: jschar where "DQUOTE \<equiv> 0x22"

definition OLLAMA_BASE_URL :: jsstring where
  "OLLAMA_BASE_URL = ustr ''http://localhost:11434/api/generate''"

text \<open>
  \<open>OLLAMA_MODEL_NAME\<close> comes from the environment (default \<open>codellama\<close>);
  \<open>BASE_SYSTEM_PROMPT\<close> is a fixed text of some fifty lines that the program only passes on.
\<close>

record config =
  OLLAMA_MODEL_NAME :: jsstring
  BASE_SYSTEM_PROMPT :: jsstring

record ollama_body =
  body_model :: jsstring
  body_system :: jsstring
  body_prompt :: jsstring
  body_format :: jsstring
  body_stream :: bool
  body_temperature :: "64 word"

definition ollama_request :: "config \<Rightarrow> jsstring \<Rightarrow> ollama_body http_request" where
  \<comment> \<open>The arguments of the one \<open>fetch\<close> call; \<open>temperature\<close> is the double 0.2.\<close>
  "ollama_request cfg p =
     \<lparr>url = OLLAMA_BASE_URL, http_method = ustr ''POST'', content_type = ustr ''application/json'',
      body = \<lparr>body_model = OLLAMA_MODEL_NAME cfg, body_system = BASE_SYSTEM_PROMPT cfg,
              body_prompt = p, body_format = ustr ''json'', body_stream = False,
              body_temperature = 0x3FC999999999999A\<rparr>\<rparr>"

fun decimal :: "nat \<Rightarrow> jsstring" where
  \<comment> \<open>A non-negative integer inside a template literal.\<close>
  "decimal n = (if n < 10 then [0x30 + of_nat n] else decimal (n div 10) @ [0x30 + of_nat (n mod 10)])"

text \<open>What the client of the service gets: a response, or the handler's promise rejects.\<close>

datatype outcome = Responded nat jsvalue | Unhandled js_error

record server_run =
  console :: "console_line list"
  sent :: "ollama_body http_request list"
  result :: outcome

definition generation_error :: "jsstring \<Rightarrow> jsvalue" where
  "generation_error raw =
     JObj [(ustr ''error'', JStr (ustr ''Failed to generate a valid and complete application.'')),
           (ustr ''errorType'', JStr (ustr ''GENERATION_ERROR'')),
           (ustr ''rawResponse'', JStr raw)]"

definition try_block ::
  "runtime \<Rightarrow> config \<Rightarrow> (ollama_body http_request \<Rightarrow> fetch_result) \<Rightarrow> jsstring
     \<Rightarrow> jsvalue \<times> console_line list \<times> (js_error + jsvalue)" where
  \<comment> \<open>The \<open>try\<close> block of \<open>processGenerativeRequest\<close>: the value of \<open>rawResponseText\<close> when
      the block is left, the lines printed, and the error thrown or the object sent.\<close>
  "try_block rt cfg fetch p =
     (let log0 = [SendingRequest (OLLAMA_MODEL_NAME cfg)] in
      case fetch (ollama_request cfg p) of
        Rejected e \<Rightarrow> (JStr [], log0, Inl e)
      | Resolved ollamaResponse \<Rightarrow>
          if \<not> ok ollamaResponse then
            (case text_body ollamaResponse of
               Inl e \<Rightarrow> (JStr [], log0, Inl e)
             | Inr errorBody \<Rightarrow>
                 (JStr [], log0,
                  Inl (Error (ustr ''Ollama API error: '' @ decimal (status ollamaResponse)
                         @ ustr '' '' @ statusText ollamaResponse @ ustr '' - '' @ errorBody))))
          else
            (case json_body ollamaResponse of
               Inl e \<Rightarrow> (JStr [], log0, Inl e)
             | Inr data \<Rightarrow>
                 if nullish data then (JStr [], log0, Inl TypeError)
                 else if \<not> truthy (get data ''response'') then
                   (JStr [], log0,
                    Inl (Error (ustr ''Ollama response is missing the '' @ [DQUOTE]
                           @ ustr ''response'' @ [DQUOTE] @ ustr '' field.'')))
                 else
                   (let rawResponseText = get data ''response'';
                        log1 = log0 @ [ReceivedResponse]
                    in case extractAndParseJson rt rawResponseText of
                         (lines, Inl e) \<Rightarrow> (rawResponseText, log1 @ lines, Inl e)
                       | (lines, Inr parsed) \<Rightarrow>
                           if \<not> truthy parsed then
                             (rawResponseText, log1 @ lines,
                              Inl (Error (ustr ''Failed to extract and parse a valid JSON object from the response.'')))
                           else if \<not> typeof_string (get parsed ''html'')
                                   \<or> \<not> typeof_string (get parsed ''css'')
                                   \<or> \<not> typeof_string (get parsed ''js'')
                                   \<or> \<not> truthy (get parsed ''html'')
                                   \<or> \<not> truthy (get parsed ''css'')
                                   \<or> \<not> truthy (get parsed ''js'') then
                             (rawResponseText, log1 @ lines,
                              Inl (Error (ustr ''Parsed JSON is missing required keys (html, css, js) or the keys have empty values.'')))
                           else (rawResponseText, log1 @ lines @ [ValidatedStructure], Inr parsed))))"

definition processGenerativeRequest ::
  "runtime \<Rightarrow> config \<Rightarrow> (ollama_body http_request \<Rightarrow> fetch_result) \<Rightarrow> jsstring
     \<Rightarrow> server_run" where
  \<comment> \<open>The \<open>catch\<close> block reads \<open>rawResponseText.substring\<close>, which only a string has.\<close>
  "processGenerativeRequest rt cfg fetch p =
     (case try_block rt cfg fetch p of
        (rawResponseText, lines, Inr parsed) \<Rightarrow>
          \<lparr>console = lines, sent = [ollama_request cfg p], result = Responded 200 parsed\<rparr>
      | (rawResponseText, lines, Inl error) \<Rightarrow>
          \<lparr>console = lines @ [FatalError error], sent = [ollama_request cfg p],
           result = (case rawResponseText of
                       JStr s \<Rightarrow> Responded 200 (generation_error (substring s 0 1000))
                     | _ \<Rightarrow> Unhandled TypeError)\<rparr>)"

definition early :: "outcome \<Rightarrow> server_run" where
  \<comment> \<open>A handler that ends before it calls \<open>processGenerativeRequest\<close>.\<close>
  "early out = \<lparr>console = [], sent = [], result = out\<rparr>"

definition validation_error :: "string \<Rightarrow> outcome" where
  "validation_error message = Responded 400 (JObj [(ustr ''error'', JStr (ustr message))])"

definition post_generate ::
  "runtime \<Rightarrow> config \<Rightarrow> (ollama_body http_request \<Rightarrow> fetch_result) \<Rightarrow> jsvalue
     \<Rightarrow> server_run" where
  \<comment> \<open>\<open>app.post('/generate')\<close>, from \<open>req.body\<close>. Only a string has \<open>trim\<close>.\<close>
  "post_generate rt cfg fetch req_body =
     (let p = (if nullish req_body then JUndefined else get req_body ''prompt'');
          userPrompt = (if truthy p then p else JStr [])
      in case userPrompt of
           JStr s \<Rightarrow>
             if trim s = [] then early (validation_error ''prompt is required'')
             else processGenerativeRequest rt cfg fetch s
         | _ \<Rightarrow> early (Unhandled TypeError))"

definition post_followup ::
  "runtime \<Rightarrow> config \<Rightarrow> (ollama_body http_request \<Rightarrow> fetch_result) \<Rightarrow> jsvalue
     \<Rightarrow> server_run" where
  \<comment> \<open>\<open>app.post('/followup')\<close>. Destructuring \<open>undefined\<close> or \<open>null\<close> throws.\<close>
  "post_followup rt cfg fetch req_body =
     (if nullish req_body then early (Unhandled TypeError)
      else
        (let prompt = get req_body ''prompt'';
             code = get req_body ''code''
         in if \<not> truthy prompt \<or> \<not> truthy code then
              early (validation_error ''A prompt and code are required.'')
            else
              (case template rt prompt of
                 Inl e \<Rightarrow> early (Unhandled e)
               | Inr promptText \<Rightarrow>
                   processGenerativeRequest rt cfg fetch
                     (ustr ''The user wants to modify the existing application. Current Code: ''
                      @ JSON_stringify rt code
                      @ ustr ''. User's Change Request: '' @ [DQUOTE] @ promptText @ [DQUOTE]
                      @ ustr ''. Generate the complete, updated code.''))))"

definition post_retry ::
  "runtime \<Rightarrow> config \<Rightarrow> (ollama_body http_request \<Rightarrow> fetch_result) \<Rightarrow> jsvalue
     \<Rightarrow> server_run" where
  \<comment> \<open>\<open>app.post('/retry')\<close>. Only strings and arrays have \<open>slice\<close>.\<close>
  "post_retry rt cfg fetch req_body =
     (if nullish req_body then early (Unhandled TypeError)
      else
        (let originalPrompt = get req_body ''originalPrompt'';
             badJson = get req_body ''badJson''
         in if \<not> truthy originalPrompt \<or> \<not> truthy badJson then
              early (validation_error ''Original prompt and bad JSON are required.'')
            else
              (case (case badJson of
                       JStr s \<Rightarrow> Inr (JStr (slice s 0 200))
                     | JArr xs \<Rightarrow> Inr (JArr (slice xs 0 200))
                     | _ \<Rightarrow> Inl TypeError) of
                 Inl e \<Rightarrow> early (Unhandled e)
               | Inr snippet \<Rightarrow>
                   (case template rt snippet of
                      Inl e \<Rightarrow> early (Unhandled e)
                    | Inr snippetText \<Rightarrow>
                        (case template rt originalPrompt of
                           Inl e \<Rightarrow> early (Unhandled e)
                         | Inr originalText \<Rightarrow>
                             processGenerativeRequest rt cfg fetch
                               (ustr ''Your previous response was invalid JSON. Invalid response snippet: ''
                                @ [DQUOTE] @ snippetText @ ustr ''...'' @ [DQUOTE]
                                @ ustr ''. The original request was: ''
                                @ [DQUOTE] @ originalText @ [DQUOTE]
                                @ ustr ''. You MUST try again and provide ONLY a valid JSON object.''))))))"

datatype endpoint = Generate | Followup | Retry

fun handle ::
  "runtime \<Rightarrow> config \<Rightarrow> (ollama_body http_request \<Rightarrow> fetch_result) \<Rightarrow> endpoint
     \<Rightarrow> jsvalue \<Rightarrow> server_run" where
  "handle rt cfg fetch Generate req_body = post_generate rt cfg fetch req_body"
| "handle rt cfg fetch Followup req_body = post_followup rt cfg fetch req_body"
| "handle rt cfg fetch Retry req_body = post_retry rt cfg fetch req_body"

section \<open>The client helper\<close>








section \<open>Notions of the specification\<close>

text \<open>
  The specification speaks of the first \<open>{\<close> and the last \<open>}\<close> of a text and of the
  inclusive substring between them. These are defined here on their own, by counting the
  elements before the first (after the last) occurrence, not through \<open>indexOf\<close>.
\<close>

definition first_occurrence :: "'a \<Rightarrow> 'a list \<Rightarrow> nat" where
  "first_occurrence c s = length (takeWhile (\<lambda>x. x \<noteq> c) s)"

definition last_occurrence :: "'a \<Rightarrow> 'a list \<Rightarrow> nat" where
  "last_occurrence c s = length s - 1 - first_occurrence c (rev s)"

definition no_json_structure :: "jsstring \<Rightarrow> bool" where
  "no_json_structure s \<longleftrightarrow>
     LBRACE \<notin> set s \<or> RBRACE \<notin> set s \<or> last_occurrence RBRACE s < first_occurrence LBRACE s"

definition brace_span :: "jsstring \<Rightarrow> jsstring" where
  "brace_span s =
     take (last_occurrence RBRACE s + 1 - first_occurrence LBRACE s)
       (drop (first_occurrence LBRACE s) s)"

text \<open>
  A JSON text that begins with a left brace is an object: a conforming \<open>JSON.parse\<close>
  returns an object for it, or throws.
\<close>

definition json_conformant :: "runtime \<Rightarrow> bool" where
  "json_conformant rt \<longleftrightarrow>
     (\<forall>s v. JSON_parse rt (LBRACE # s) = Inr v \<longrightarrow> (\<exists>kvs. v = JObj kvs))"

text \<open>
  The model's output, when the backend delivered one: the reply has a success status, its
  body reads as JSON, and the \<open>response\<close> field of that is there and not empty.
  \<open>None\<close> covers the backend failures: unreachable, non-success status, unreadable body,
  missing output field.
\<close>

definition backend_output :: "fetch_result \<Rightarrow> jsvalue option" where
  "backend_output fr =
     (case fr of
        Rejected e \<Rightarrow> None
      | Resolved r \<Rightarrow>
          if \<not> ok r then None
          else (case json_body r of
                  Inl e \<Rightarrow> None
                | Inr data \<Rightarrow>
                    if nullish data \<or> \<not> truthy (get data ''response'') then None
                    else Some (get data ''response'')))"

text \<open>
  A code bundle: an object whose three fields \<open>html\<close>, \<open>css\<close> and \<open>js\<close> are all
  present, strings, and not empty.
\<close>

fun nonempty_text :: "jsvalue option \<Rightarrow> bool" where
  "nonempty_text (Some (JStr s)) = (s \<noteq> [])"
| "nonempty_text v = False"

fun valid_bundle :: "jsvalue \<Rightarrow> bool" where
  "valid_bundle (JObj kvs) =
     (nonempty_text (map_of kvs (ustr ''html'')) \<and> nonempty_text (map_of kvs (ustr ''css''))
      \<and> nonempty_text (map_of kvs (ustr ''js'')))"
| "valid_bundle v = False"

text \<open>
  A field of a request body: \<open>None\<close> when the body is no object or has no such field.
  The prompt the specification refuses is one that is missing, empty, or only white space.
\<close>

definition field :: "jsvalue \<Rightarrow> string \<Rightarrow> jsvalue option" where
  "field b name = (case b of JObj kvs \<Rightarrow> map_of kvs (ustr name) | _ \<Rightarrow> None)"

fun missing_or_blank :: "jsvalue option \<Rightarrow> bool" where
  "missing_or_blank None = True"
| "missing_or_blank (Some (JStr s)) = (trim s = [])"
| "missing_or_blank (Some v) = False"



section \<open>An environment for the examples\<close>

text \<open>
  The examples run the program in one fixed environment. Its runtime answers as
  JavaScript does on the texts and values the examples use (the model output of the
  specification's example, with its empty script; one with a script; the code of the
  follow-up example); its answers elsewhere play no part in them. Each backend answers
  every request alike; the examples never read the text of a success reply.
\<close>

definition empty_js_inner :: jsstring where
  \<open>empty_js_inner = ustr ''"html":"<p>hi</p>","css":"p{color:red}","js":""''\<close>

definition empty_js_span :: jsstring where
  "empty_js_span = LBRACE # empty_js_inner @ [RBRACE]"

definition empty_js_text :: jsstring where
  "empty_js_text = ustr ''Sure! ```json'' @ [0x0A] @ empty_js_span @ [0x0A] @ ustr ''```''"

definition empty_js_object :: jsvalue where
  "empty_js_object =
     JObj [(ustr ''html'', JStr (ustr ''<p>hi</p>'')), (ustr ''css'', JStr (ustr ''p{color:red}'')),
           (ustr ''js'', JStr [])]"

definition complete_span :: jsstring where
  \<open>complete_span = ustr ''{"html":"<p>hi</p>","css":"p{color:red}","js":"1"}''\<close>

definition complete_object :: jsvalue where
  "complete_object =
     JObj [(ustr ''html'', JStr (ustr ''<p>hi</p>'')), (ustr ''css'', JStr (ustr ''p{color:red}'')),
           (ustr ''js'', JStr (ustr ''1''))]"

definition example_code :: jsvalue where
  "example_code =
     JObj [(ustr ''html'', JStr (ustr ''<h1>x</h1>'')), (ustr ''css'', JStr []), (ustr ''js'', JStr [])]"

definition example_runtime :: runtime where
  \<open>example_runtime =
     \<lparr>JSON_parse = (\<lambda>s. if s = empty_js_span then Inr empty_js_object
                        else if s = complete_span then Inr complete_object
                        else Inl (ustr ''Unexpected token'')),
      JSON_stringify = (\<lambda>v. if v = example_code
                             then ustr ''{"html":"<h1>x</h1>","css":"","js":""}''
                             else if v = JObj [(ustr ''prompt'', JStr (ustr ''a page''))]
                             then ustr ''{"prompt":"a page"}''
                             else ustr ''null''),
      ToString = (\<lambda>v. case v of
                         JUndefined \<Rightarrow> Some (ustr ''undefined'')
                       | JNull \<Rightarrow> Some (ustr ''null'')
                       | JBool b \<Rightarrow> Some (ustr (if b then ''true'' else ''false''))
                       | _ \<Rightarrow> None)\<rparr>\<close>

definition example_config :: config where
  "example_config = \<lparr>OLLAMA_MODEL_NAME = ustr ''codellama'', BASE_SYSTEM_PROMPT = ustr ''You are a code generation engine.''\<rparr>"

definition replying :: "jsstring \<Rightarrow> ollama_body http_request \<Rightarrow> fetch_result" where
  "replying output request =
     Resolved \<lparr>status = 200, statusText = ustr ''OK'', text_body = Inl TypeError,
               json_body = Inr (JObj [(ustr ''response'', JStr output)])\<rparr>"

definition unreachable :: "ollama_body http_request \<Rightarrow> fetch_result" where
  "unreachable request = Rejected (FetchError (ustr ''connect ECONNREFUSED 127.0.0.1:11434''))"

definition failing :: "ollama_body http_request \<Rightarrow> fetch_result" where
  "failing request =
     Resolved \<lparr>status = 500, statusText = ustr ''Internal Server Error'',
               text_body = Inr (ustr ''model not found''),
               json_body = Inl (SyntaxError (ustr ''Unexpected token m''))\<rparr>"







section \<open>Properties\<close>

subsection \<open>Built-ins and extraction\<close>

lemma indexOf_absent: "c \<notin> set s \<Longrightarrow> indexOf s c = -1"
  by (induction s) auto

lemma indexOf_present: "c \<in> set s \<Longrightarrow> indexOf s c = int (first_occurrence c s)"
  by (induction s) (auto simp: first_occurrence_def Let_def)

lemma lastIndexOf_absent: "c \<notin> set s \<Longrightarrow> lastIndexOf s c = -1"
  by (induction s) auto

lemma lastIndexOf_split:
  "c \<notin> set post \<Longrightarrow> lastIndexOf (pre @ c # post) c = int (length pre)"
  by (induction pre) (auto simp: Let_def lastIndexOf_absent)

lemma first_occurrence_split:
  "c \<notin> set pre \<Longrightarrow> first_occurrence c (pre @ c # post) = length pre"
  by (induction pre) (auto simp: first_occurrence_def)

lemma last_occurrence_split:
  "c \<notin> set post \<Longrightarrow> last_occurrence c (pre @ c # post) = length pre"
  using first_occurrence_split [of c "rev post" "rev pre"]
  by (simp add: last_occurrence_def)

lemma lastIndexOf_present:
  assumes "c \<in> set s" shows "lastIndexOf s c = int (last_occurrence c s)"
proof -
  from split_list_last [OF assms] obtain pre post where "s = pre @ c # post" "c \<notin> set post"
    by blast
  then show ?thesis by (simp add: lastIndexOf_split last_occurrence_split)
qed

lemma first_occurrence_less: "c \<in> set s \<Longrightarrow> first_occurrence c s < length s"
  unfolding first_occurrence_def by (induction s) auto

lemma last_occurrence_less: "c \<in> set s \<Longrightarrow> last_occurrence c s < length s"
  unfolding last_occurrence_def by (cases s) auto

lemma substring_prefix: "0 \<le> n \<Longrightarrow> substring s 0 n = take (nat n) s"
  by (auto simp: substring_def Let_def min_def max_def)

lemma substring_500: "substring s 0 500 = take 500 s"
  using substring_prefix [of 500 s] by simp

lemma substring_1000: "substring s 0 1000 = take 1000 s"
  using substring_prefix [of 1000 s] by simp

lemma substring_span:
  assumes ab: "a \<le> b" and b: "b < length s"
  shows "substring s (int a) (int b + 1) = take (b + 1 - a) (drop a s)"
proof -
  have k: "nat (int b + 1 - int a) = b + 1 - a" using ab by linarith
  have 1: "min (max (int a) 0) (int (length s)) = int a" using ab b by simp
  have 2: "min (max (int b + 1) 0) (int (length s)) = int b + 1" using b by simp
  have 3: "min (int a) (int b + 1) = int a" using ab by simp
  have 4: "max (int a) (int b + 1) = int b + 1" using ab by simp
  show ?thesis unfolding substring_def Let_def 1 2 3 4 k nat_int ..
qed

lemma structure_indices:
  "\<not> no_json_structure s \<Longrightarrow>
     \<not> (indexOf s LBRACE = -1 \<or> lastIndexOf s RBRACE = -1 \<or> lastIndexOf s RBRACE < indexOf s LBRACE)"
  by (auto simp: no_json_structure_def indexOf_present lastIndexOf_present)

lemma no_structure_indices:
  "no_json_structure s \<Longrightarrow>
     indexOf s LBRACE = -1 \<or> lastIndexOf s RBRACE = -1 \<or> lastIndexOf s RBRACE < indexOf s LBRACE"
  by (cases "LBRACE \<in> set s"; cases "RBRACE \<in> set s")
     (auto simp: no_json_structure_def indexOf_present lastIndexOf_present indexOf_absent lastIndexOf_absent)

lemma jsonString_is_span:
  assumes "\<not> no_json_structure s"
  shows "substring s (indexOf s LBRACE) (lastIndexOf s RBRACE + 1) = brace_span s"
proof -
  from assms have l: "LBRACE \<in> set s" and r: "RBRACE \<in> set s"
    and le: "first_occurrence LBRACE s \<le> last_occurrence RBRACE s"
    by (auto simp: no_json_structure_def)
  show ?thesis
    using substring_span [OF le last_occurrence_less [OF r]]
    by (simp add: indexOf_present [OF l] lastIndexOf_present [OF r] brace_span_def)
qed

lemma brace_span_starts:
  assumes "\<not> no_json_structure s"
  shows "\<exists>rest. brace_span s = LBRACE # rest"
proof -
  from assms have l: "LBRACE \<in> set s" and r: "RBRACE \<in> set s"
    and le: "first_occurrence LBRACE s \<le> last_occurrence RBRACE s"
    by (auto simp: no_json_structure_def)
  from split_list_first [OF l] obtain pre post where s: "s = pre @ LBRACE # post" "LBRACE \<notin> set pre"
    by blast
  then have f: "first_occurrence LBRACE s = length pre"
    by (simp add: first_occurrence_split)
  have d: "drop (first_occurrence LBRACE s) s = LBRACE # post"
    unfolding f by (simp add: s)
  have n: "last_occurrence RBRACE s + 1 - first_occurrence LBRACE s
             = Suc (last_occurrence RBRACE s - first_occurrence LBRACE s)"
    using le by simp
  show ?thesis unfolding brace_span_def d n by simp
qed

lemma extract_no_structure:
  "no_json_structure s \<Longrightarrow>
     extractAndParseJson rt (JStr s) =
       ([ExtractAttempt, NoJsonStructure, RawTextSnippet (take 500 s)], Inr JNull)"
  using no_structure_indices [of s]
  by (simp add: extractAndParseJson_def Let_def substring_500)

lemma extract_structure:
  "\<not> no_json_structure s \<Longrightarrow>
     extractAndParseJson rt (JStr s) =
       (case JSON_parse rt (brace_span s) of
          Inr parsed \<Rightarrow> ([ExtractAttempt, ParseSucceeded], Inr parsed)
        | Inl message \<Rightarrow>
            ([ExtractAttempt, ParseFailed message, ExtractedSnippet (take 500 (brace_span s))],
             Inr JNull))"
  using structure_indices [of s] jsonString_is_span [of s]
  by (simp add: extractAndParseJson_def Let_def substring_500 split: sum.splits)

lemma span_of_split:
  assumes "LBRACE \<notin> set pre" and "RBRACE \<notin> set post"
  shows "\<not> no_json_structure (pre @ LBRACE # mid @ RBRACE # post)"
    and "brace_span (pre @ LBRACE # mid @ RBRACE # post) = LBRACE # mid @ [RBRACE]"
proof -
  let ?s = "pre @ LBRACE # mid @ RBRACE # post"
  have f: "first_occurrence LBRACE ?s = length pre"
    using assms(1) by (rule first_occurrence_split)
  have "last_occurrence RBRACE ((pre @ LBRACE # mid) @ RBRACE # post) = length (pre @ LBRACE # mid)"
    using assms(2) by (rule last_occurrence_split)
  then have l: "last_occurrence RBRACE ?s = length pre + 1 + length mid" by simp
  show "\<not> no_json_structure ?s" by (simp add: no_json_structure_def f l)
  show "brace_span ?s = LBRACE # mid @ [RBRACE]" unfolding brace_span_def f l by simp
qed

subsection \<open>The generation procedure\<close>

lemma field_check: "typeof_string (get v name) \<and> truthy (get v name) \<longleftrightarrow>
   (case v of JObj kvs \<Rightarrow> nonempty_text (map_of kvs (ustr name)) | _ \<Rightarrow> False)"
proof (cases v)
  case (JObj kvs)
  show ?thesis
  proof (cases "map_of kvs (ustr name)")
    case None
    with JObj show ?thesis by simp
  next
    case (Some w)
    with JObj show ?thesis by (cases w) simp_all
  qed
qed simp_all

lemma shape_check:
  "(\<not> typeof_string (get parsed ''html'') \<or> \<not> typeof_string (get parsed ''css'')
      \<or> \<not> typeof_string (get parsed ''js'') \<or> \<not> truthy (get parsed ''html'')
      \<or> \<not> truthy (get parsed ''css'') \<or> \<not> truthy (get parsed ''js''))
   \<longleftrightarrow> \<not> valid_bundle parsed"
  using field_check [of parsed "''html''"] field_check [of parsed "''css''"]
        field_check [of parsed "''js''"]
  by (cases parsed) auto

lemma valid_bundle_truthy: "valid_bundle v \<Longrightarrow> truthy v"
  by (cases v) simp_all

lemma try_block_no_output:
  "backend_output (fetch (ollama_request cfg p)) = None \<Longrightarrow>
     \<exists>e. try_block rt cfg fetch p = (JStr [], [SendingRequest (OLLAMA_MODEL_NAME cfg)], Inl e)"
  by (auto simp: try_block_def backend_output_def Let_def
           split: fetch_result.splits sum.splits if_splits)

lemma try_block_output:
  assumes "backend_output (fetch (ollama_request cfg p)) = Some v"
    and "extractAndParseJson rt v = (lines, r)"
  shows "try_block rt cfg fetch p =
     (case r of
        Inl e \<Rightarrow> (v, [SendingRequest (OLLAMA_MODEL_NAME cfg), ReceivedResponse] @ lines, Inl e)
      | Inr parsed \<Rightarrow>
          if valid_bundle parsed
          then (v, [SendingRequest (OLLAMA_MODEL_NAME cfg), ReceivedResponse] @ lines
                   @ [ValidatedStructure], Inr parsed)
          else (v, [SendingRequest (OLLAMA_MODEL_NAME cfg), ReceivedResponse] @ lines,
                Inl (Error (if truthy parsed
                   then ustr ''Parsed JSON is missing required keys (html, css, js) or the keys have empty values.''
                   else ustr ''Failed to extract and parse a valid JSON object from the response.''))))"
proof -
  from assms(1) obtain resp data where f: "fetch (ollama_request cfg p) = Resolved resp"
    and k: "ok resp" and j: "json_body resp = Inr data" and n: "\<not> nullish data"
    and t: "truthy (get data ''response'')" and v: "v = get data ''response''"
    by (auto simp: backend_output_def split: fetch_result.splits sum.splits if_splits)
  show ?thesis
  proof (cases r)
    case (Inl e)
    with f k j n t v assms(2) show ?thesis by (simp add: try_block_def Let_def)
  next
    case (Inr parsed)
    show ?thesis
    proof (cases "truthy parsed")
      case False
      then have "\<not> valid_bundle parsed" using valid_bundle_truthy by blast
      with False Inr f k j n t v assms(2) show ?thesis by (simp add: try_block_def Let_def)
    next
      case True
      with Inr f k j n t v assms(2) shape_check [of parsed] show ?thesis
        by (simp add: try_block_def Let_def)
    qed
  qed
qed

lemma process_sent: "sent (processGenerativeRequest rt cfg fetch p) = [ollama_request cfg p]"
  by (simp add: processGenerativeRequest_def split: prod.splits sum.splits)

lemma process_no_output:
  assumes "backend_output (fetch (ollama_request cfg p)) = None"
  shows "result (processGenerativeRequest rt cfg fetch p) = Responded 200 (generation_error [])"
proof -
  from try_block_no_output [where fetch = fetch and rt = rt, OF assms] obtain e where
    "try_block rt cfg fetch p = (JStr [], [SendingRequest (OLLAMA_MODEL_NAME cfg)], Inl e)" by blast
  then show ?thesis by (simp add: processGenerativeRequest_def substring_1000)
qed

lemma process_text:
  assumes "backend_output (fetch (ollama_request cfg p)) = Some (JStr text)"
    and "snd (extractAndParseJson rt (JStr text)) = Inr parsed"
  shows "result (processGenerativeRequest rt cfg fetch p) =
           (if valid_bundle parsed then Responded 200 parsed
            else Responded 200 (generation_error (take 1000 text)))"
proof -
  obtain lines where "extractAndParseJson rt (JStr text) = (lines, Inr parsed)"
    using assms(2) by (cases "extractAndParseJson rt (JStr text)") simp
  from try_block_output [where fetch = fetch, OF assms(1) this] show ?thesis
    by (simp add: processGenerativeRequest_def substring_1000)
qed

lemma process_text_console:
  assumes "backend_output (fetch (ollama_request cfg p)) = Some (JStr t)"
    and "snd (extractAndParseJson rt (JStr t)) = Inr parsed"
  shows "if valid_bundle parsed
         then last (console (processGenerativeRequest rt cfg fetch p)) = ValidatedStructure
         else \<exists>e. last (console (processGenerativeRequest rt cfg fetch p)) = FatalError e"
proof -
  obtain lines where "extractAndParseJson rt (JStr t) = (lines, Inr parsed)"
    using assms(2) by (cases "extractAndParseJson rt (JStr t)") simp
  from try_block_output [where fetch = fetch, OF assms(1) this] show ?thesis
    by (simp add: processGenerativeRequest_def)
qed


lemma extract_string_returns: "\<exists>lines v. extractAndParseJson rt (JStr s) = (lines, Inr v)"
  by (simp add: extractAndParseJson_def Let_def split: sum.splits)

subsection \<open>The endpoints\<close>

lemma early_sent: "sent (early out) = []"
  by (simp add: early_def)

lemma generate_reaches:
  "sent (post_generate rt cfg fetch b) = q # qs \<Longrightarrow>
     \<exists>p. post_generate rt cfg fetch b = processGenerativeRequest rt cfg fetch p"
  by (auto simp: post_generate_def Let_def early_sent split: jsvalue.splits if_splits)

lemma followup_reaches:
  "sent (post_followup rt cfg fetch b) = q # qs \<Longrightarrow>
     \<exists>p. post_followup rt cfg fetch b = processGenerativeRequest rt cfg fetch p"
  by (auto simp: post_followup_def Let_def early_sent split: sum.splits if_splits)

lemma retry_reaches:
  "sent (post_retry rt cfg fetch b) = q # qs \<Longrightarrow>
     \<exists>p. post_retry rt cfg fetch b = processGenerativeRequest rt cfg fetch p"
  by (auto simp: post_retry_def Let_def early_sent split: sum.splits if_splits jsvalue.splits)

lemma handle_reaches:
  assumes "sent (handle rt cfg fetch ep b) = q # qs"
  shows "\<exists>p. handle rt cfg fetch ep b = processGenerativeRequest rt cfg fetch p
              \<and> q = ollama_request cfg p \<and> qs = []"
proof -
  from assms obtain p where h: "handle rt cfg fetch ep b = processGenerativeRequest rt cfg fetch p"
    using generate_reaches followup_reaches retry_reaches by (cases ep) fastforce+
  with assms process_sent [of rt cfg fetch p] show ?thesis by auto
qed

lemma generation_error_fields:
  "get (generation_error raw) ''error''
     = JStr (ustr ''Failed to generate a valid and complete application.'')"
  "get (generation_error raw) ''errorType'' = JStr (ustr ''GENERATION_ERROR'')"
  "get (generation_error raw) ''rawResponse'' = JStr raw"
  by (simp_all add: generation_error_def ustr_def)

lemma generation_error_not_bundle: "\<not> valid_bundle (generation_error raw)"
  by (simp add: generation_error_def ustr_def)

lemma ollama_prompt: "body_prompt (body (ollama_request cfg p)) = p"
  by (simp add: ollama_request_def)


lemma handle_raw_response:
  assumes called: "sent (handle rt cfg fetch ep req_body) = q # qs"
  shows "(backend_output (fetch q) = None \<longrightarrow>
            result (handle rt cfg fetch ep req_body) = Responded 200 (generation_error []))
       \<and> (\<forall>t. backend_output (fetch q) = Some (JStr t) \<longrightarrow>
            result (handle rt cfg fetch ep req_body) = Responded 200 (generation_error (take 1000 t))
            \<or> (\<exists>parsed. valid_bundle parsed
                  \<and> result (handle rt cfg fetch ep req_body) = Responded 200 parsed))"
proof -
  from handle_reaches [OF called] obtain p where
    h: "handle rt cfg fetch ep req_body = processGenerativeRequest rt cfg fetch p"
    and q: "q = ollama_request cfg p" by blast
  have 1: "backend_output (fetch q) = None \<longrightarrow>
            result (handle rt cfg fetch ep req_body) = Responded 200 (generation_error [])"
    unfolding q h using process_no_output [where fetch = fetch] by blast
  have 2: "result (handle rt cfg fetch ep req_body) = Responded 200 (generation_error (take 1000 t))
            \<or> (\<exists>parsed. valid_bundle parsed
                  \<and> result (handle rt cfg fetch ep req_body) = Responded 200 parsed)"
    if o: "backend_output (fetch q) = Some (JStr t)" for t
  proof -
    from extract_string_returns [of rt t] obtain lines v where
      "extractAndParseJson rt (JStr t) = (lines, Inr v)" by blast
    then have e: "snd (extractAndParseJson rt (JStr t)) = Inr v" by simp
    from o have o': "backend_output (fetch (ollama_request cfg p)) = Some (JStr t)" unfolding q .
    from process_text [where fetch = fetch, OF o' e] show ?thesis
      unfolding h by (cases "valid_bundle v") auto
  qed
  from 1 2 show ?thesis by blast
qed

lemma process_result_not_400:
  "result (processGenerativeRequest rt cfg fetch p) \<noteq> validation_error m"
  by (simp add: processGenerativeRequest_def validation_error_def
           split: prod.splits sum.splits jsvalue.splits)

lemma early_result: "result (early out) = out"
  by (simp add: early_def)

lemma generate_string:
  "get b ''prompt'' = JStr s \<Longrightarrow>
     post_generate rt cfg fetch b =
       (if trim s = [] then early (validation_error ''prompt is required'')
        else processGenerativeRequest rt cfg fetch s)"
  by (cases b) (auto simp: post_generate_def Let_def trim_def)

lemma generate_falsy:
  "\<not> truthy (get b ''prompt'') \<Longrightarrow>
     post_generate rt cfg fetch b = early (validation_error ''prompt is required'')"
  by (cases b) (auto simp: post_generate_def Let_def trim_def)

lemma generate_other:
  "truthy (get b ''prompt'') \<Longrightarrow> \<not> typeof_string (get b ''prompt'') \<Longrightarrow>
     post_generate rt cfg fetch b = early (Unhandled TypeError)"
  by (cases b; cases "get b ''prompt''") (auto simp: post_generate_def Let_def)

lemma slice_200: "slice s 0 200 = take 200 s"
  by (simp add: slice_def Let_def min_def)

lemma get_string_object: "get b name = JStr s \<Longrightarrow> \<not> nullish b"
  by (cases b) simp_all

lemma followup_missing:
  "\<not> nullish b \<Longrightarrow> \<not> truthy (get b ''prompt'') \<or> \<not> truthy (get b ''code'') \<Longrightarrow>
     post_followup rt cfg fetch b = early (validation_error ''A prompt and code are required.'')"
  by (auto simp: post_followup_def Let_def)

lemma retry_missing:
  "\<not> nullish b \<Longrightarrow> \<not> truthy (get b ''originalPrompt'') \<or> \<not> truthy (get b ''badJson'') \<Longrightarrow>
     post_retry rt cfg fetch b = early (validation_error ''Original prompt and bad JSON are required.'')"
  by (auto simp: post_retry_def Let_def)

lemma followup_runs:
  "get b ''prompt'' = JStr ps \<Longrightarrow> ps \<noteq> [] \<Longrightarrow> truthy (get b ''code'') \<Longrightarrow>
     post_followup rt cfg fetch b =
       processGenerativeRequest rt cfg fetch
         (ustr ''The user wants to modify the existing application. Current Code: ''
          @ JSON_stringify rt (get b ''code'')
          @ ustr ''. User's Change Request: '' @ [DQUOTE] @ ps @ [DQUOTE]
          @ ustr ''. Generate the complete, updated code.'')"
  using get_string_object [of b "''prompt''" ps] by (simp add: post_followup_def Let_def)

lemma retry_runs:
  "get b ''originalPrompt'' = JStr op \<Longrightarrow> op \<noteq> [] \<Longrightarrow> get b ''badJson'' = JStr bj \<Longrightarrow>
   bj \<noteq> [] \<Longrightarrow>
     post_retry rt cfg fetch b =
       processGenerativeRequest rt cfg fetch
         (ustr ''Your previous response was invalid JSON. Invalid response snippet: ''
          @ [DQUOTE] @ take 200 bj @ ustr ''...'' @ [DQUOTE]
          @ ustr ''. The original request was: ''
          @ [DQUOTE] @ op @ [DQUOTE]
          @ ustr ''. You MUST try again and provide ONLY a valid JSON object.'')"
  using get_string_object [of b "''badJson''" bj]
  by (simp add: post_retry_def Let_def slice_200)

lemma retry_other:
  assumes "\<not> nullish b" and "truthy (get b ''originalPrompt'')"
    and "truthy (get b ''badJson'')" and "\<not> typeof_string (get b ''badJson'')"
    and "\<forall>xs. get b ''badJson'' \<noteq> JArr xs"
  shows "post_retry rt cfg fetch b = early (Unhandled TypeError)"
  using assms by (cases "get b ''badJson''") (simp_all add: post_retry_def Let_def)

subsection \<open>The client helper\<close>





subsection \<open>The example environment\<close>

lemma example_runtime_conformant: "json_conformant example_runtime"
  by (simp add: json_conformant_def example_runtime_def empty_js_object_def complete_object_def)

lemma example_generate:
  "handle rt cfg fetch Generate (JObj [(ustr ''prompt'', JStr (ustr ''a page''))])
     = processGenerativeRequest rt cfg fetch (ustr ''a page'')"
  by (simp add: post_generate_def trim_def is_white_space_def ustr_def)

lemma replying_output: "t \<noteq> [] \<Longrightarrow> backend_output (replying t q) = Some (JStr t)"
  by (simp add: backend_output_def replying_def ok_def)

lemma unreachable_output: "backend_output (unreachable q) = None"
  by (simp add: backend_output_def unreachable_def)

lemma failing_output: "backend_output (failing q) = None"
  by (simp add: backend_output_def failing_def ok_def)

lemma empty_js_split:
  "empty_js_text = (ustr ''Sure! ```json'' @ [0x0A]) @ LBRACE # empty_js_inner
                     @ RBRACE # (0x0A # ustr ''```'')"
  by (simp add: empty_js_text_def empty_js_span_def)

lemma empty_js_extracted:
  "extractAndParseJson example_runtime (JStr empty_js_text)
     = ([ExtractAttempt, ParseSucceeded], Inr empty_js_object)"
proof -
  have l: "LBRACE \<notin> set (ustr ''Sure! ```json'' @ [0x0A])"
    by (simp add: ustr_def)
  have r: "RBRACE \<notin> set (0x0A # ustr ''```'')"
    by (simp add: ustr_def)
  have "\<not> no_json_structure empty_js_text" and "brace_span empty_js_text = empty_js_span"
    unfolding empty_js_split empty_js_span_def using l r by (rule span_of_split)+
  then show ?thesis by (simp add: extract_structure example_runtime_def)
qed

lemma complete_span_split: "complete_span = [] @ LBRACE # tl (butlast complete_span) @ RBRACE # []"
  by (simp add: complete_span_def ustr_def)

lemma complete_extracted:
  "extractAndParseJson example_runtime (JStr complete_span)
     = ([ExtractAttempt, ParseSucceeded], Inr complete_object)"
proof -
  have "\<not> no_json_structure ([] @ LBRACE # tl (butlast complete_span) @ RBRACE # [])"
    and "brace_span ([] @ LBRACE # tl (butlast complete_span) @ RBRACE # [])
           = LBRACE # tl (butlast complete_span) @ [RBRACE]"
    by (rule span_of_split; simp)+
  then have "\<not> no_json_structure complete_span" and "brace_span complete_span = complete_span"
    using complete_span_split by simp_all
  moreover have "complete_span \<noteq> empty_js_span"
    by (simp add: complete_span_def empty_js_span_def empty_js_inner_def ustr_def)
  ultimately show ?thesis by (simp add: extract_structure example_runtime_def)
qed

lemma empty_js_invalid: "\<not> valid_bundle empty_js_object"
  by (simp add: empty_js_object_def ustr_def)

lemma complete_valid: "valid_bundle complete_object"
  by (simp add: complete_object_def ustr_def)

lemma example_sent:
  "sent (handle rt cfg fetch Generate (JObj [(ustr ''prompt'', JStr (ustr ''a page''))]))
     = [ollama_request cfg (ustr ''a page'')]"
  unfolding example_generate by (rule process_sent)

lemma empty_js_output:
  "backend_output (replying empty_js_text q) = Some (JStr empty_js_text)"
  by (rule replying_output) (simp add: empty_js_text_def)

lemma complete_output:
  "backend_output (replying complete_span q) = Some (JStr complete_span)"
  by (rule replying_output) (simp add: complete_span_def ustr_def)


section \<open>The claims\<close>




text \<open>
  C2. Let a text consist of a part without \<open>{\<close>, then \<open>{\<close>, anything, \<open>}\<close>, and a part
  without \<open>}\<close>: the two braces are the first \<open>{\<close> and the last \<open>}\<close> of the text. If
  the substring from the one to the other, both included, parses as JSON, extraction
  returns exactly the parsed value, which is not \<open>null\<close>. A text with a single JSON
  object between prose without braces is the case where neither outer part has any brace.
\<close>

theorem extraction_returns_the_parsed_object:
  assumes "s = pre @ LBRACE # mid @ RBRACE # post"
    and "LBRACE \<notin> set pre" and "RBRACE \<notin> set post"
    and "json_conformant rt"
    and "JSON_parse rt (LBRACE # mid @ [RBRACE]) = Inr v"
  shows "extractAndParseJson rt (JStr s) = ([ExtractAttempt, ParseSucceeded], Inr v)
           \<and> v \<noteq> JNull"
proof -
  have "\<not> no_json_structure s" and "brace_span s = LBRACE # mid @ [RBRACE]"
    unfolding assms(1) using assms(2,3) by (rule span_of_split)+
  then have "extractAndParseJson rt (JStr s) = ([ExtractAttempt, ParseSucceeded], Inr v)"
    using assms(5) by (simp add: extract_structure)
  moreover have "v \<noteq> JNull" using assms(4,5) by (auto simp: json_conformant_def)
  ultimately show ?thesis by simp
qed

theorem extraction_returns_the_parsed_object_witness:
  "empty_js_text = (ustr ''Sure! ```json'' @ [0x0A]) @ LBRACE # empty_js_inner
                     @ RBRACE # (0x0A # ustr ''```'')
   \<and> LBRACE \<notin> set (ustr ''Sure! ```json'' @ [0x0A])
   \<and> RBRACE \<notin> set (0x0A # ustr ''```'')
   \<and> json_conformant example_runtime
   \<and> JSON_parse example_runtime (LBRACE # empty_js_inner @ [RBRACE]) = Inr empty_js_object
   \<and> extractAndParseJson example_runtime (JStr empty_js_text)
       = ([ExtractAttempt, ParseSucceeded], Inr empty_js_object)
   \<and> empty_js_object \<noteq> JNull"
proof -
  note d = empty_js_split
  have l: "LBRACE \<notin> set (ustr ''Sure! ```json'' @ [0x0A])"
    by (simp add: ustr_def)
  have r: "RBRACE \<notin> set (0x0A # ustr ''```'')"
    by (simp add: ustr_def)
  have p: "JSON_parse example_runtime (LBRACE # empty_js_inner @ [RBRACE]) = Inr empty_js_object"
    by (simp add: example_runtime_def empty_js_span_def)
  from extraction_returns_the_parsed_object [OF d l r example_runtime_conformant p]
  show ?thesis using d l r p example_runtime_conformant by simp
qed

text \<open>
  C3. For every text, extraction returns \<open>null\<close> exactly when the text has no \<open>{\<close>, or
  no \<open>}\<close>, or its last \<open>}\<close> stands before its first \<open>{\<close>, or the substring from the
  first \<open>{\<close> to the last \<open>}\<close> does not parse. In the first three cases the console
  gets the line that no JSON structure was found, with the first 500 code units of the
  text; in the last it gets the line that parsing failed, with the parser's message and
  the first 500 code units of the substring.
\<close>

theorem extraction_fails_exactly_when:
  assumes "json_conformant rt"
  shows "(snd (extractAndParseJson rt (JStr s)) = Inr JNull
            \<longleftrightarrow> no_json_structure s \<or> (\<exists>m. JSON_parse rt (brace_span s) = Inl m))
       \<and> (no_json_structure s \<longrightarrow>
             fst (extractAndParseJson rt (JStr s))
               = [ExtractAttempt, NoJsonStructure, RawTextSnippet (take 500 s)])
       \<and> (\<forall>m. \<not> no_json_structure s \<and> JSON_parse rt (brace_span s) = Inl m \<longrightarrow>
             fst (extractAndParseJson rt (JStr s))
               = [ExtractAttempt, ParseFailed m, ExtractedSnippet (take 500 (brace_span s))])"
proof (cases "no_json_structure s")
  case True
  then show ?thesis by (simp add: extract_no_structure)
next
  case False
  from brace_span_starts [OF False] obtain rest where b: "brace_span s = LBRACE # rest" by blast
  show ?thesis
  proof (cases "JSON_parse rt (brace_span s)")
    case (Inl m)
    with False show ?thesis by (simp add: extract_structure)
  next
    case (Inr v)
    with assms b have "v \<noteq> JNull" by (auto simp: json_conformant_def)
    with False Inr show ?thesis by (simp add: extract_structure)
  qed
qed

theorem extraction_fails_exactly_when_witness:
  "json_conformant example_runtime
   \<and> \<not> no_json_structure (ustr ''see {oops} here'')
   \<and> JSON_parse example_runtime (brace_span (ustr ''see {oops} here''))
       = Inl (ustr ''Unexpected token'')
   \<and> extractAndParseJson example_runtime (JStr (ustr ''see {oops} here''))
       = ([ExtractAttempt, ParseFailed (ustr ''Unexpected token''),
           ExtractedSnippet (ustr ''{oops}'')], Inr JNull)
   \<and> no_json_structure (ustr ''} no object {'')
   \<and> extractAndParseJson example_runtime (JStr (ustr ''} no object {''))
       = ([ExtractAttempt, NoJsonStructure, RawTextSnippet (ustr ''} no object {'')], Inr JNull)"
proof -
  have n: "\<not> no_json_structure (ustr ''see {oops} here'')"
    by code_simp
  have b: "brace_span (ustr ''see {oops} here'') = ustr ''{oops}''"
    by code_simp
  have p: "JSON_parse example_runtime (brace_span (ustr ''see {oops} here''))
             = Inl (ustr ''Unexpected token'')"
    unfolding b by code_simp
  have m: "no_json_structure (ustr ''} no object {'')"
    by code_simp
  have t: "take 500 (ustr ''} no object {'') = ustr ''} no object {''"
    by (simp add: ustr_def)
  have u: "take 500 (ustr ''{oops}'') = ustr ''{oops}''"
    by (simp add: ustr_def)
  note a = extraction_fails_exactly_when [OF example_runtime_conformant, of "ustr ''see {oops} here''"]
  note c = extraction_fails_exactly_when [OF example_runtime_conformant, of "ustr ''} no object {''"]
  have 1: "extractAndParseJson example_runtime (JStr (ustr ''see {oops} here''))
       = ([ExtractAttempt, ParseFailed (ustr ''Unexpected token''),
           ExtractedSnippet (ustr ''{oops}'')], Inr JNull)"
    using a n p b u by (simp add: prod_eq_iff)
  have 2: "extractAndParseJson example_runtime (JStr (ustr ''} no object {''))
       = ([ExtractAttempt, NoJsonStructure, RawTextSnippet (ustr ''} no object {'')], Inr JNull)"
    using c m t by (simp add: prod_eq_iff)
  show ?thesis using example_runtime_conformant n p m 1 2 by simp
qed

text \<open>
  C4. When a request has reached the backend, the backend has delivered an output text and
  extraction has returned an object: if the object has its three fields \<open>html\<close>,
  \<open>css\<close> and \<open>js\<close> as non-empty strings, the endpoint sends that object at status 200,
  on the path that prints that the structure was validated; if any of the three is absent,
  not a string or empty, the endpoint sends the generation-error body (with the first 1000
  code units of the output), on the path that prints the error caught.
\<close>

theorem only_complete_bundles_succeed:
  assumes called: "sent (handle rt cfg fetch ep req_body) = q # qs"
    and out: "backend_output (fetch q) = Some (JStr t)"
    and extracted: "snd (extractAndParseJson rt (JStr t)) = Inr (JObj kvs)"
  shows "(valid_bundle (JObj kvs) \<longrightarrow>
            result (handle rt cfg fetch ep req_body) = Responded 200 (JObj kvs)
            \<and> last (console (handle rt cfg fetch ep req_body)) = ValidatedStructure)
       \<and> (\<not> valid_bundle (JObj kvs) \<longrightarrow>
            result (handle rt cfg fetch ep req_body) = Responded 200 (generation_error (take 1000 t))
            \<and> (\<exists>e. last (console (handle rt cfg fetch ep req_body)) = FatalError e))"
proof -
  from handle_reaches [OF called] obtain p where
    h: "handle rt cfg fetch ep req_body = processGenerativeRequest rt cfg fetch p"
    and q: "q = ollama_request cfg p" by blast
  from out have o: "backend_output (fetch (ollama_request cfg p)) = Some (JStr t)"
    unfolding q .
  from process_text [where fetch = fetch, OF o extracted]
       process_text_console [where fetch = fetch, OF o extracted]
  show ?thesis unfolding h
    by (cases "valid_bundle (JObj kvs)") (simp_all del: valid_bundle.simps)
qed

theorem only_complete_bundles_succeed_witness:
  "sent (handle example_runtime example_config (replying complete_span) Generate
           (JObj [(ustr ''prompt'', JStr (ustr ''a page''))]))
     = [ollama_request example_config (ustr ''a page'')]
   \<and> backend_output (replying complete_span (ollama_request example_config (ustr ''a page'')))
       = Some (JStr complete_span)
   \<and> snd (extractAndParseJson example_runtime (JStr complete_span)) = Inr complete_object
   \<and> valid_bundle complete_object
   \<and> result (handle example_runtime example_config (replying complete_span) Generate
                (JObj [(ustr ''prompt'', JStr (ustr ''a page''))]))
       = Responded 200 complete_object
   \<and> last (console (handle example_runtime example_config (replying complete_span) Generate
                        (JObj [(ustr ''prompt'', JStr (ustr ''a page''))])))
       = ValidatedStructure
   \<and> snd (extractAndParseJson example_runtime (JStr empty_js_text)) = Inr empty_js_object
   \<and> \<not> valid_bundle empty_js_object
   \<and> result (handle example_runtime example_config (replying empty_js_text) Generate
                (JObj [(ustr ''prompt'', JStr (ustr ''a page''))]))
       = Responded 200 (generation_error (take 1000 empty_js_text))"
proof -
  let ?q = "ollama_request example_config (ustr ''a page'')"
  let ?b = "JObj [(ustr ''prompt'', JStr (ustr ''a page''))]"
  note c = example_sent [of example_runtime example_config "replying complete_span"]
  note o = complete_output [of ?q]
  have e: "snd (extractAndParseJson example_runtime (JStr complete_span)) = Inr complete_object"
    by (simp add: complete_extracted)
  note v = complete_valid
  note c' = example_sent [of example_runtime example_config "replying empty_js_text"]
  note o' = empty_js_output [of ?q]
  have e': "snd (extractAndParseJson example_runtime (JStr empty_js_text)) = Inr empty_js_object"
    by (simp add: empty_js_extracted)
  note v' = empty_js_invalid
  note yes = only_complete_bundles_succeed
    [where fetch = "replying complete_span", OF c o e [unfolded complete_object_def]]
  note no = only_complete_bundles_succeed
    [where fetch = "replying empty_js_text", OF c' o' e' [unfolded empty_js_object_def]]
  from yes v have 1:
    "result (handle example_runtime example_config (replying complete_span) Generate ?b)
       = Responded 200 complete_object
     \<and> last (console (handle example_runtime example_config (replying complete_span)
                          Generate ?b)) = ValidatedStructure"
    unfolding complete_object_def by blast
  from no v' have 2:
    "result (handle example_runtime example_config (replying empty_js_text) Generate ?b)
       = Responded 200 (generation_error (take 1000 empty_js_text))"
    unfolding empty_js_object_def by blast
  show ?thesis using c o e v e' v' 1 2 by simp
qed

text \<open>
  C5. As stated, the claim has \<open>/generate\<close> answer 400 only for a prompt that is
  missing, empty or blank. The handler reads \<open>req.body?.prompt || ''\<close>: a prompt
  that is present but falsy, such as \<open>false\<close>, is replaced by the empty string and
  refused too.
\<close>

theorem generate_refuses_a_false_prompt_counterexample:
  "field (JObj [(ustr ''prompt'', JBool False)]) ''prompt'' = Some (JBool False)
   \<and> \<not> missing_or_blank (field (JObj [(ustr ''prompt'', JBool False)]) ''prompt'')
   \<and> result (post_generate example_runtime example_config unreachable
                (JObj [(ustr ''prompt'', JBool False)]))
       = validation_error ''prompt is required''"
  by (simp add: field_def generate_falsy early_result)

text \<open>
  C5, amended. For every request to \<open>/generate\<close>, the answer is status 400 with the
  body \<open>{error: 'prompt is required'}\<close> if and only if the prompt is missing or
  otherwise falsy (\<open>null\<close>, \<open>false\<close>, zero, the empty string), or is a string that
  is empty after trimming. A string prompt that is not blank is passed, untrimmed, to the
  generation procedure, which sends it to the backend as the instruction.
\<close>

theorem generate_validation:
  "(result (post_generate rt cfg fetch b) = validation_error ''prompt is required''
      \<longleftrightarrow> \<not> truthy (get b ''prompt'') \<or> (\<exists>s. get b ''prompt'' = JStr s \<and> trim s = []))
   \<and> (\<forall>s. get b ''prompt'' = JStr s \<and> trim s \<noteq> [] \<longrightarrow>
          post_generate rt cfg fetch b = processGenerativeRequest rt cfg fetch s
          \<and> sent (post_generate rt cfg fetch b) = [ollama_request cfg s])"
proof (cases "truthy (get b ''prompt'')")
  case False
  then have "\<And>s. get b ''prompt'' = JStr s \<Longrightarrow> trim s = []"
    by (auto simp: trim_def)
  with False show ?thesis by (auto simp: generate_falsy early_result)
next
  case True
  show ?thesis
  proof (cases "get b ''prompt''")
    case (JStr s)
    have "trim s \<noteq> [] \<Longrightarrow> s \<noteq> []" by (auto simp: trim_def)
    with JStr show ?thesis
      by (auto simp: generate_string early_result process_result_not_400 process_sent)
  qed (use True in \<open>simp_all add: generate_other early_result validation_error_def\<close>)
qed

theorem generate_validation_witness:
  "get (JObj [(ustr ''prompt'', JStr (ustr ''  a page''))]) ''prompt'' = JStr (ustr ''  a page'')
   \<and> trim (ustr ''  a page'') \<noteq> []
   \<and> post_generate example_runtime example_config unreachable
         (JObj [(ustr ''prompt'', JStr (ustr ''  a page''))])
       = processGenerativeRequest example_runtime example_config unreachable (ustr ''  a page'')
   \<and> sent (post_generate example_runtime example_config unreachable
              (JObj [(ustr ''prompt'', JStr (ustr ''  a page''))]))
       = [ollama_request example_config (ustr ''  a page'')]
   \<and> get (JObj [(ustr ''prompt'', JStr (ustr ''  ''))]) ''prompt'' = JStr (ustr ''  '')
   \<and> trim (ustr ''  '') = []
   \<and> result (post_generate example_runtime example_config unreachable
                (JObj [(ustr ''prompt'', JStr (ustr ''  ''))]))
       = validation_error ''prompt is required''"
proof -
  let ?b = "JObj [(ustr ''prompt'', JStr (ustr ''  a page''))]"
  let ?c = "JObj [(ustr ''prompt'', JStr (ustr ''  ''))]"
  have g: "get ?b ''prompt'' = JStr (ustr ''  a page'')" by simp
  have t: "trim (ustr ''  a page'') \<noteq> []"
    by (simp add: trim_def is_white_space_def ustr_def)
  have g': "get ?c ''prompt'' = JStr (ustr ''  '')" by simp
  have t': "trim (ustr ''  '') = []"
    by (simp add: trim_def is_white_space_def ustr_def)
  from generate_validation [of example_runtime example_config unreachable ?b] g t
  have 1: "post_generate example_runtime example_config unreachable ?b
             = processGenerativeRequest example_runtime example_config unreachable (ustr ''  a page'')
           \<and> sent (post_generate example_runtime example_config unreachable ?b)
               = [ollama_request example_config (ustr ''  a page'')]"
    by blast
  from generate_validation [of example_runtime example_config unreachable ?c] g' t'
  have 2: "result (post_generate example_runtime example_config unreachable ?c)
             = validation_error ''prompt is required''"
    by blast
  show ?thesis using g t g' t' 1 2 by blast
qed

text \<open>
  C6. As stated, the claim has the generation procedure run whenever both fields are
  present. The handlers test \<open>!prompt || !code\<close> and \<open>!originalPrompt || !badJson\<close>: a
  field that is present but falsy counts as missing. Here \<open>/followup\<close> gets the code of
  the specification's example and an empty prompt, and answers 400 without a backend call.
\<close>

theorem followup_refuses_an_empty_prompt_counterexample:
  "field (JObj [(ustr ''prompt'', JStr []), (ustr ''code'', example_code)]) ''prompt''
     = Some (JStr [])
   \<and> field (JObj [(ustr ''prompt'', JStr []), (ustr ''code'', example_code)]) ''code''
       = Some example_code
   \<and> result (post_followup example_runtime example_config (replying complete_span)
                (JObj [(ustr ''prompt'', JStr []), (ustr ''code'', example_code)]))
       = validation_error ''A prompt and code are required.''
   \<and> sent (post_followup example_runtime example_config (replying complete_span)
              (JObj [(ustr ''prompt'', JStr []), (ustr ''code'', example_code)]))
       = []"
  by (simp add: field_def followup_missing early_def ustr_def)

text \<open>
  C6, amended. For every request to \<open>/followup\<close> or \<open>/retry\<close> that has a body: when
  one of the two fields is missing or falsy (\<open>null\<close>, \<open>false\<close>, zero, the empty
  string), the answer is status 400 with the endpoint's error message and the backend is
  not called. When \<open>prompt\<close> is a non-empty string and \<open>code\<close> is truthy, respectively
  when \<open>originalPrompt\<close> and \<open>badJson\<close> are non-empty strings, the composite instruction
  is built and the generation procedure runs on it.
\<close>

theorem followup_and_retry_validation:
  assumes "\<not> nullish b"
  shows "(\<not> truthy (get b ''prompt'') \<or> \<not> truthy (get b ''code'') \<longrightarrow>
            result (post_followup rt cfg fetch b)
              = validation_error ''A prompt and code are required.''
            \<and> sent (post_followup rt cfg fetch b) = [])
       \<and> (\<not> truthy (get b ''originalPrompt'') \<or> \<not> truthy (get b ''badJson'') \<longrightarrow>
            result (post_retry rt cfg fetch b)
              = validation_error ''Original prompt and bad JSON are required.''
            \<and> sent (post_retry rt cfg fetch b) = [])
       \<and> (\<forall>ps. get b ''prompt'' = JStr ps \<and> ps \<noteq> [] \<and> truthy (get b ''code'') \<longrightarrow>
            post_followup rt cfg fetch b =
              processGenerativeRequest rt cfg fetch
                (ustr ''The user wants to modify the existing application. Current Code: ''
                 @ JSON_stringify rt (get b ''code'')
                 @ ustr ''. User's Change Request: '' @ [DQUOTE] @ ps @ [DQUOTE]
                 @ ustr ''. Generate the complete, updated code.''))
       \<and> (\<forall>op bj. get b ''originalPrompt'' = JStr op \<and> op \<noteq> []
                    \<and> get b ''badJson'' = JStr bj \<and> bj \<noteq> [] \<longrightarrow>
            post_retry rt cfg fetch b =
              processGenerativeRequest rt cfg fetch
                (ustr ''Your previous response was invalid JSON. Invalid response snippet: ''
                 @ [DQUOTE] @ take 200 bj @ ustr ''...'' @ [DQUOTE]
                 @ ustr ''. The original request was: ''
                 @ [DQUOTE] @ op @ [DQUOTE]
                 @ ustr ''. You MUST try again and provide ONLY a valid JSON object.''))"
  using followup_missing [OF assms, of rt cfg fetch] retry_missing [OF assms, of rt cfg fetch]
        followup_runs [of b _ rt cfg fetch] retry_runs [of b _ _ rt cfg fetch]
  by (simp add: early_def)

theorem followup_and_retry_validation_witness:
  \<open>\<not> nullish (JObj [(ustr ''prompt'', JStr (ustr ''add a footer'')), (ustr ''code'', example_code)])
   \<and> get (JObj [(ustr ''prompt'', JStr (ustr ''add a footer'')), (ustr ''code'', example_code)])
         ''prompt'' = JStr (ustr ''add a footer'')
   \<and> truthy (get (JObj [(ustr ''prompt'', JStr (ustr ''add a footer'')),
                          (ustr ''code'', example_code)]) ''code'')
   \<and> post_followup example_runtime example_config unreachable
         (JObj [(ustr ''prompt'', JStr (ustr ''add a footer'')), (ustr ''code'', example_code)])
       = processGenerativeRequest example_runtime example_config unreachable
           (ustr ''The user wants to modify the existing application. Current Code: {"html":"<h1>x</h1>","css":"","js":""}. User's Change Request: "add a footer". Generate the complete, updated code.'')
   \<and> \<not> truthy (get (JObj [(ustr ''originalPrompt'', JStr (ustr ''a page''))]) ''badJson'')
   \<and> result (post_retry example_runtime example_config unreachable
                (JObj [(ustr ''originalPrompt'', JStr (ustr ''a page''))]))
       = validation_error ''Original prompt and bad JSON are required.''
   \<and> sent (post_retry example_runtime example_config unreachable
              (JObj [(ustr ''originalPrompt'', JStr (ustr ''a page''))]))
       = []\<close>
proof -
  let ?b = "JObj [(ustr ''prompt'', JStr (ustr ''add a footer'')), (ustr ''code'', example_code)]"
  let ?c = "JObj [(ustr ''originalPrompt'', JStr (ustr ''a page''))]"
  have n: "\<not> nullish ?b" by simp
  have g: "get ?b ''prompt'' = JStr (ustr ''add a footer'')" by simp
  have k: "get ?b ''code'' = example_code" by (simp add: ustr_def)
  have t: "truthy (get ?b ''code'')" unfolding k by (simp add: example_code_def)
  have s: "JSON_stringify example_runtime example_code
             = ustr ''{'' @ [DQUOTE] @ ustr ''html'' @ [DQUOTE] @ ustr '':'' @ [DQUOTE]
               @ ustr ''<h1>x</h1>'' @ [DQUOTE] @ ustr '','' @ [DQUOTE] @ ustr ''css''
               @ [DQUOTE] @ ustr '':'' @ [DQUOTE, DQUOTE] @ ustr '','' @ [DQUOTE] @ ustr ''js''
               @ [DQUOTE] @ ustr '':'' @ [DQUOTE, DQUOTE] @ ustr ''}''"
    by (simp add: example_runtime_def ustr_def)
  have n': "\<not> nullish ?c" by simp
  have f: "\<not> truthy (get ?c ''badJson'')" by (simp add: ustr_def)
  from followup_and_retry_validation [OF n, of example_runtime example_config unreachable] g t
  have "post_followup example_runtime example_config unreachable ?b
          = processGenerativeRequest example_runtime example_config unreachable
              (ustr ''The user wants to modify the existing application. Current Code: ''
               @ JSON_stringify example_runtime (get ?b ''code'')
               @ ustr ''. User's Change Request: '' @ [DQUOTE] @ ustr ''add a footer'' @ [DQUOTE]
               @ ustr ''. Generate the complete, updated code.'')"
    by (simp add: ustr_def)
  then have 1: "post_followup example_runtime example_config unreachable ?b
          = processGenerativeRequest example_runtime example_config unreachable
              (ustr ''The user wants to modify the existing application. Current Code: ''
               @ (ustr ''{'' @ [DQUOTE] @ ustr ''html'' @ [DQUOTE] @ ustr '':'' @ [DQUOTE]
               @ ustr ''<h1>x</h1>'' @ [DQUOTE] @ ustr '','' @ [DQUOTE] @ ustr ''css''
               @ [DQUOTE] @ ustr '':'' @ [DQUOTE, DQUOTE] @ ustr '','' @ [DQUOTE] @ ustr ''js''
               @ [DQUOTE] @ ustr '':'' @ [DQUOTE, DQUOTE] @ ustr ''}'')
               @ ustr ''. User's Change Request: '' @ [DQUOTE] @ ustr ''add a footer'' @ [DQUOTE]
               @ ustr ''. Generate the complete, updated code.'')"
    unfolding k s .
  from followup_and_retry_validation [OF n', of example_runtime example_config unreachable] f
  have 2: "result (post_retry example_runtime example_config unreachable ?c)
             = validation_error ''Original prompt and bad JSON are required.''
           \<and> sent (post_retry example_runtime example_config unreachable ?c) = []"
    by blast
  show ?thesis using n g t f 1 2 by (simp add: ustr_def)
qed

text \<open>
  C7. For every request to \<open>/retry\<close> whose \<open>originalPrompt\<close> and \<open>badJson\<close> are
  non-empty strings, the run sends one request to the backend, and the \<open>prompt\<close> of its
  body is the instruction that quotes the first 200 code units of \<open>badJson\<close>, followed by
  three dots, and \<open>originalPrompt\<close> in full; a \<open>badJson\<close> of at most 200 code units is
  quoted whole.
\<close>

theorem retry_quotes_first_200:
  assumes "get b ''originalPrompt'' = JStr op" and "op \<noteq> []"
    and "get b ''badJson'' = JStr bj" and "bj \<noteq> []"
  shows "(\<exists>q. sent (post_retry rt cfg fetch b) = [q]
              \<and> body_prompt (body q) =
                  ustr ''Your previous response was invalid JSON. Invalid response snippet: ''
                  @ [DQUOTE] @ take 200 bj @ ustr ''...'' @ [DQUOTE]
                  @ ustr ''. The original request was: ''
                  @ [DQUOTE] @ op @ [DQUOTE]
                  @ ustr ''. You MUST try again and provide ONLY a valid JSON object.'')
         \<and> (length bj \<le> 200 \<longrightarrow> take 200 bj = bj)"
  using retry_runs [OF assms, of rt cfg fetch] by (simp add: process_sent ollama_prompt)

text \<open>
  A \<open>badJson\<close> of 251 code units, a brace and 250 times the letter x: the instruction
  quotes the brace and 199 letters, and then the three dots.
\<close>

theorem retry_quotes_first_200_witness:
  \<open>get (JObj [(ustr ''originalPrompt'', JStr (ustr ''a page'')),
              (ustr ''badJson'', JStr (LBRACE # replicate 250 0x78))]) ''originalPrompt''
     = JStr (ustr ''a page'')
   \<and> get (JObj [(ustr ''originalPrompt'', JStr (ustr ''a page'')),
                (ustr ''badJson'', JStr (LBRACE # replicate 250 0x78))]) ''badJson''
       = JStr (LBRACE # replicate 250 0x78)
   \<and> length (LBRACE # replicate 250 (0x78 :: jschar)) = 251
   \<and> take 200 (LBRACE # replicate 250 (0x78 :: jschar)) = LBRACE # replicate 199 0x78
   \<and> (\<exists>q. sent (post_retry example_runtime example_config unreachable
                   (JObj [(ustr ''originalPrompt'', JStr (ustr ''a page'')),
                          (ustr ''badJson'', JStr (LBRACE # replicate 250 0x78))]))
              = [q]
            \<and> body_prompt (body q) =
                ustr ''Your previous response was invalid JSON. Invalid response snippet: "''
                @ LBRACE # replicate 199 0x78
                @ ustr ''...". The original request was: "a page". You MUST try again and provide ONLY a valid JSON object.'')\<close>
proof -
  let ?b = "JObj [(ustr ''originalPrompt'', JStr (ustr ''a page'')),
                  (ustr ''badJson'', JStr (LBRACE # replicate 250 0x78))]"
  have o: "get ?b ''originalPrompt'' = JStr (ustr ''a page'')" by simp
  have o': "ustr ''a page'' \<noteq> []" by (simp add: ustr_def)
  have j: "get ?b ''badJson'' = JStr (LBRACE # replicate 250 0x78)" by (simp add: ustr_def)
  have j': "LBRACE # replicate 250 (0x78 :: jschar) \<noteq> []" by simp
  have n: "length (LBRACE # replicate 250 (0x78 :: jschar)) = 251" by simp
  have k: "take 200 (LBRACE # replicate 250 (0x78 :: jschar)) = LBRACE # replicate 199 0x78"
    by simp
  from retry_quotes_first_200 [OF o o' j j', of example_runtime example_config unreachable]
  obtain q where s: "sent (post_retry example_runtime example_config unreachable ?b) = [q]"
    and p: "body_prompt (body q) =
              ustr ''Your previous response was invalid JSON. Invalid response snippet: ''
              @ [DQUOTE] @ take 200 (LBRACE # replicate 250 0x78) @ ustr ''...'' @ [DQUOTE]
              @ ustr ''. The original request was: ''
              @ [DQUOTE] @ ustr ''a page'' @ [DQUOTE]
              @ ustr ''. You MUST try again and provide ONLY a valid JSON object.''"
    by blast
  from p have p': \<open>body_prompt (body q) =
      ustr ''Your previous response was invalid JSON. Invalid response snippet: "''
      @ LBRACE # replicate 199 0x78
      @ ustr ''...". The original request was: "a page". You MUST try again and provide ONLY a valid JSON object.''\<close>
    unfolding k by (simp add: ustr_def)
  from s p' have "\<exists>q. sent (post_retry example_runtime example_config unreachable ?b) = [q]
      \<and> body_prompt (body q) =
          ustr ''Your previous response was invalid JSON. Invalid response snippet: '' @ [DQUOTE]
          @ LBRACE # replicate 199 0x78
          @ ustr ''...'' @ [DQUOTE] @ ustr ''. The original request was: '' @ [DQUOTE]
          @ ustr ''a page'' @ [DQUOTE]
          @ ustr ''. You MUST try again and provide ONLY a valid JSON object.''"
    by (auto simp: ustr_def)
  then have e: \<open>\<exists>q. sent (post_retry example_runtime example_config unreachable ?b) = [q]
      \<and> body_prompt (body q) =
          ustr ''Your previous response was invalid JSON. Invalid response snippet: "''
          @ LBRACE # replicate 199 0x78
          @ ustr ''...". The original request was: "a page". You MUST try again and provide ONLY a valid JSON object.''\<close>
    by (simp add: ustr_def)
  show ?thesis using o j n k e by blast
qed




text \<open>
  C9. The claim has every request answered, whatever the types of the body fields. The
  handler of \<open>/generate\<close> calls \<open>trim\<close> on the prompt outside any \<open>try\<close>: for a prompt
  that is truthy and not a string (a number, \<open>true\<close>, an array, an object) the call
  throws a TypeError, the handler's promise rejects, and no response is sent. The handler
  of \<open>/retry\<close> does the same with \<open>slice\<close> on a \<open>badJson\<close> that is neither a string nor
  an array. The backend is not called.
\<close>

theorem non_string_field_escapes_the_handler:
  assumes "truthy v" and "\<not> typeof_string v"
  shows "result (handle rt cfg fetch Generate (JObj [(ustr ''prompt'', v)])) = Unhandled TypeError
       \<and> sent (handle rt cfg fetch Generate (JObj [(ustr ''prompt'', v)])) = []
       \<and> ((\<forall>xs. v \<noteq> JArr xs) \<longrightarrow>
            result (handle rt cfg fetch Retry
                      (JObj [(ustr ''originalPrompt'', JStr (ustr ''a page'')),
                             (ustr ''badJson'', v)])) = Unhandled TypeError
            \<and> sent (handle rt cfg fetch Retry
                      (JObj [(ustr ''originalPrompt'', JStr (ustr ''a page'')),
                             (ustr ''badJson'', v)])) = [])"
proof -
  let ?r = "JObj [(ustr ''originalPrompt'', JStr (ustr ''a page'')), (ustr ''badJson'', v)]"
  have g: "get ?r ''originalPrompt'' = JStr (ustr ''a page'')" by simp
  have j: "get ?r ''badJson'' = v" by (simp add: ustr_def)
  have t: "truthy (JStr (ustr ''a page''))" by (simp add: ustr_def)
  have "post_retry rt cfg fetch ?r = early (Unhandled TypeError)" if "\<forall>xs. v \<noteq> JArr xs"
  proof (rule retry_other)
    show "\<not> nullish ?r" by simp
    show "truthy (get ?r ''originalPrompt'')" unfolding g by (rule t)
    show "truthy (get ?r ''badJson'')" unfolding j by (rule assms(1))
    show "\<not> typeof_string (get ?r ''badJson'')" unfolding j by (rule assms(2))
    show "\<forall>xs. get ?r ''badJson'' \<noteq> JArr xs" unfolding j by (rule that)
  qed
  with assms generate_other [of "JObj [(ustr ''prompt'', v)]" rt cfg fetch]
  show ?thesis by (simp add: early_def)
qed

theorem non_string_field_escapes_the_handler_witness:
  "truthy (JNum 0x4014000000000000)
   \<and> \<not> typeof_string (JNum 0x4014000000000000)
   \<and> result (handle example_runtime example_config unreachable Generate
                (JObj [(ustr ''prompt'', JNum 0x4014000000000000)]))
       = Unhandled TypeError
   \<and> sent (handle example_runtime example_config unreachable Generate
              (JObj [(ustr ''prompt'', JNum 0x4014000000000000)]))
       = []
   \<and> result (handle example_runtime example_config unreachable Retry
                (JObj [(ustr ''originalPrompt'', JStr (ustr ''a page'')),
                       (ustr ''badJson'', JNum 0x4014000000000000)]))
       = Unhandled TypeError"
proof -
  have t: "truthy (JNum 0x4014000000000000)" by (simp add: zero_or_nan_def)
  have s: "\<not> typeof_string (JNum 0x4014000000000000)" by simp
  from non_string_field_escapes_the_handler
    [OF t s, of example_runtime example_config unreachable]
  show ?thesis using t s by simp
qed

text \<open>
  C10. When a request has reached the backend and the backend delivers no output
  (unreachable, non-success status, unreadable reply, or a reply without the response
  field), the endpoint answers with status 200 and a body whose \<open>errorType\<close> is
  \<open>GENERATION_ERROR\<close> and whose \<open>rawResponse\<close> is the empty string. Once the output text
  has been read, the answer is either a complete bundle or such a body whose
  \<open>rawResponse\<close> is the first 1000 code units of that text.
\<close>

theorem raw_response_empty_before_output:
  assumes called: "sent (handle rt cfg fetch ep req_body) = q # qs"
  shows "(backend_output (fetch q) = None \<longrightarrow>
            (\<exists>payload. result (handle rt cfg fetch ep req_body) = Responded 200 payload
                \<and> get payload ''errorType'' = JStr (ustr ''GENERATION_ERROR'')
                \<and> get payload ''rawResponse'' = JStr []))
       \<and> (\<forall>t. backend_output (fetch q) = Some (JStr t) \<longrightarrow>
            (\<exists>payload. result (handle rt cfg fetch ep req_body) = Responded 200 payload
                \<and> get payload ''errorType'' = JStr (ustr ''GENERATION_ERROR'')
                \<and> get payload ''rawResponse'' = JStr (take 1000 t))
            \<or> (\<exists>parsed. valid_bundle parsed
                  \<and> result (handle rt cfg fetch ep req_body) = Responded 200 parsed))"
proof -
  note h = handle_raw_response [OF called]
  have 1: "\<exists>payload. result (handle rt cfg fetch ep req_body) = Responded 200 payload
                \<and> get payload ''errorType'' = JStr (ustr ''GENERATION_ERROR'')
                \<and> get payload ''rawResponse'' = JStr []"
    if "backend_output (fetch q) = None"
    using h that generation_error_fields [of "[]"] by auto
  have 2: "(\<exists>payload. result (handle rt cfg fetch ep req_body) = Responded 200 payload
                \<and> get payload ''errorType'' = JStr (ustr ''GENERATION_ERROR'')
                \<and> get payload ''rawResponse'' = JStr (take 1000 t))
            \<or> (\<exists>parsed. valid_bundle parsed
                  \<and> result (handle rt cfg fetch ep req_body) = Responded 200 parsed)"
    if "backend_output (fetch q) = Some (JStr t)" for t
    using h that generation_error_fields [of "take 1000 t"] by auto
  from 1 2 show ?thesis by blast
qed

theorem raw_response_empty_before_output_witness:
  "sent (handle example_runtime example_config unreachable Generate
           (JObj [(ustr ''prompt'', JStr (ustr ''a page''))]))
     = [ollama_request example_config (ustr ''a page'')]
   \<and> backend_output (unreachable (ollama_request example_config (ustr ''a page''))) = None
   \<and> (\<exists>payload. result (handle example_runtime example_config unreachable Generate
                           (JObj [(ustr ''prompt'', JStr (ustr ''a page''))]))
                    = Responded 200 payload
          \<and> get payload ''errorType'' = JStr (ustr ''GENERATION_ERROR'')
          \<and> get payload ''rawResponse'' = JStr [])
   \<and> backend_output (failing (ollama_request example_config (ustr ''a page''))) = None
   \<and> (\<exists>payload. result (handle example_runtime example_config failing Generate
                           (JObj [(ustr ''prompt'', JStr (ustr ''a page''))]))
                    = Responded 200 payload
          \<and> get payload ''errorType'' = JStr (ustr ''GENERATION_ERROR'')
          \<and> get payload ''rawResponse'' = JStr [])
   \<and> backend_output (replying empty_js_text (ollama_request example_config (ustr ''a page'')))
       = Some (JStr empty_js_text)
   \<and> take 1000 empty_js_text = empty_js_text
   \<and> (\<exists>payload. result (handle example_runtime example_config (replying empty_js_text)
                           Generate (JObj [(ustr ''prompt'', JStr (ustr ''a page''))]))
                    = Responded 200 payload
          \<and> get payload ''errorType'' = JStr (ustr ''GENERATION_ERROR'')
          \<and> get payload ''rawResponse'' = JStr empty_js_text)"
proof -
  let ?q = "ollama_request example_config (ustr ''a page'')"
  let ?b = "JObj [(ustr ''prompt'', JStr (ustr ''a page''))]"
  note c = example_sent [of example_runtime example_config unreachable]
  note o = unreachable_output [of ?q]
  note c' = example_sent [of example_runtime example_config failing]
  note o' = failing_output [of ?q]
  note c'' = example_sent [of example_runtime example_config "replying empty_js_text"]
  note o'' = empty_js_output [of ?q]
  have k: "take 1000 empty_js_text = empty_js_text"
    by (simp add: empty_js_text_def empty_js_span_def empty_js_inner_def ustr_def)
  have e: "snd (extractAndParseJson example_runtime (JStr empty_js_text)) = Inr empty_js_object"
    by (simp add: empty_js_extracted)
  have r: "result (handle example_runtime example_config (replying empty_js_text) Generate ?b)
             = Responded 200 (generation_error (take 1000 empty_js_text))"
    unfolding example_generate
    using process_text [where fetch = "replying empty_js_text", OF o'' e] empty_js_invalid
    by simp
  from raw_response_empty_before_output [where fetch = unreachable, OF c] o
  have 1: "\<exists>payload. result (handle example_runtime example_config unreachable Generate ?b)
                        = Responded 200 payload
             \<and> get payload ''errorType'' = JStr (ustr ''GENERATION_ERROR'')
             \<and> get payload ''rawResponse'' = JStr []" by blast
  from raw_response_empty_before_output [where fetch = failing, OF c'] o'
  have 2: "\<exists>payload. result (handle example_runtime example_config failing Generate ?b)
                        = Responded 200 payload
             \<and> get payload ''errorType'' = JStr (ustr ''GENERATION_ERROR'')
             \<and> get payload ''rawResponse'' = JStr []" by blast
  from raw_response_empty_before_output [where fetch = "replying empty_js_text", OF c''] o''
  have "(\<exists>payload. result (handle example_runtime example_config (replying empty_js_text)
                             Generate ?b) = Responded 200 payload
             \<and> get payload ''errorType'' = JStr (ustr ''GENERATION_ERROR'')
             \<and> get payload ''rawResponse'' = JStr (take 1000 empty_js_text))
        \<or> (\<exists>parsed. valid_bundle parsed
              \<and> result (handle example_runtime example_config (replying empty_js_text)
                          Generate ?b) = Responded 200 parsed)"
    by blast
  with r generation_error_not_bundle [of "take 1000 empty_js_text"]
  have 3: "\<exists>payload. result (handle example_runtime example_config (replying empty_js_text)
                             Generate ?b) = Responded 200 payload
             \<and> get payload ''errorType'' = JStr (ustr ''GENERATION_ERROR'')
             \<and> get payload ''rawResponse'' = JStr empty_js_text"
    unfolding k by auto
  show ?thesis using c o o' o'' k 1 2 3 by blast
qed

end
